theory Spec2Isabelle
  imports Main
begin

section \<open>JavaScript values\<close>

text \<open>
  The component \<^verbatim>\<open>src/components/PaddockMap.vue\<close> reads four keys of a GeoJSON
  feature's property bag (\<^verbatim>\<open>name\<close>, \<open>owner\<close>, \<open>area_acres\<close>, \<open>Project__Name\<close>), whose
  TypeScript type is \<open>any\<close>. The primitive values a property can hold are modelled by
  \<open>jsval\<close>; objects, arrays and symbols are outside the model.

  The program's numbers are IEEE-754 doubles, and their arithmetic is not rebuilt here.
  The type \<open>'n\<close> stands for the numbers other than \<open>NaN\<close>, whatever they are (fractions
  and infinities included), with the two zeros taken as the one value \<open>0\<close>: addition,
  \<^verbatim>\<open>===\<close>, membership in a \<open>Set\<close>, truthiness and \<open>ToString\<close> do not tell them apart.
  \<open>NaN\<close> is a value of its own. The two operations on numbers that the program uses,
  addition and \<^verbatim>\<open>Number.prototype.toString\<close>, are taken from a \<open>host\<close>: nothing is
  assumed about them, so that what is proved for every host holds for the doubles, with
  their rounding.
\<close>

datatype 'n jsval = JUndefined | JNull | JBool bool | JNum 'n | JNaN | JStr string

datatype error = TypeError

record 'n host =
  number_add :: "'n \<Rightarrow> 'n \<Rightarrow> 'n option"
  number_to_string :: "'n \<Rightarrow> string"

text \<open>
  \<open>number_add H x y\<close> is the sum of two numbers as the host computes it, \<open>None\<close> when
  it is \<open>NaN\<close>; \<open>number_to_string H x\<close> is the rendering of a number.
\<close>

text \<open>Truthiness, as tested by \<^verbatim>\<open>if (v)\<close>, \<^verbatim>\<open>v ? a : b\<close> and \<^verbatim>\<open>v || d\<close>.\<close>

fun js_truthy :: "'n::zero jsval \<Rightarrow> bool" where
  "js_truthy JUndefined = False"
| "js_truthy JNull = False"
| "js_truthy (JBool b) = b"
| "js_truthy (JNum n) = (n \<noteq> 0)"
| "js_truthy JNaN = False"
| "js_truthy (JStr s) = (s \<noteq> [])"

definition js_or :: "'n::zero jsval \<Rightarrow> 'n jsval \<Rightarrow> 'n jsval" where
  "js_or a b = (if js_truthy a then a else b)"

text \<open>Strict equality \<^verbatim>\<open>===\<close>: \<open>NaN\<close> differs from itself.\<close>

definition js_strict_eq :: "'n jsval \<Rightarrow> 'n jsval \<Rightarrow> bool" where
  "js_strict_eq a b = (a = b \<and> a \<noteq> JNaN)"

text \<open>\<open>ToString\<close>, used by template literals, by \<open>+\<close> on a string and for property keys.\<close>

fun js_to_string :: "'n host \<Rightarrow> 'n jsval \<Rightarrow> string" where
  "js_to_string H JUndefined = ''undefined''"
| "js_to_string H JNull = ''null''"
| "js_to_string H (JBool b) = (if b then ''true'' else ''false'')"
| "js_to_string H (JNum n) = number_to_string H n"
| "js_to_string H JNaN = ''NaN''"
| "js_to_string H (JStr s) = s"

text \<open>\<open>ToNumber\<close> on the non-string primitives; \<open>None\<close> stands for \<open>NaN\<close>.\<close>

fun js_to_number :: "'n::{zero,one} jsval \<Rightarrow> 'n option" where
  "js_to_number JUndefined = None"
| "js_to_number JNull = Some 0"
| "js_to_number (JBool b) = Some (if b then 1 else 0)"
| "js_to_number (JNum n) = Some n"
| "js_to_number JNaN = None"
| "js_to_number (JStr s) = None"

text \<open>
  The binary \<open>+\<close>: concatenation as soon as one operand is a string, the host's addition
  of numbers otherwise (the last equation is only reached with no string operand), and
  \<open>NaN\<close> when an operand or the sum is \<open>NaN\<close>.
\<close>

fun js_plus :: "'n::{zero,one} host \<Rightarrow> 'n jsval \<Rightarrow> 'n jsval \<Rightarrow> 'n jsval" where
  "js_plus H (JStr s) v = JStr (s @ js_to_string H v)"
| "js_plus H v (JStr s) = JStr (js_to_string H v @ s)"
| "js_plus H a b =
     (case (js_to_number a, js_to_number b) of
        (Some x, Some y) \<Rightarrow> (case number_add H x y of Some z \<Rightarrow> JNum z | None \<Rightarrow> JNaN)
      | _ \<Rightarrow> JNaN)"

section \<open>Features\<close>

text \<open>
  A GeoJSON feature: its geometry and its property bag, which may be \<open>null\<close>. A
  FeatureCollection is the list of its features, in order. An object with own keys is a
  map from key to value; a key that is not there reads as \<open>undefined\<close>.
\<close>

type_synonym 'n props = "string \<rightharpoonup> 'n jsval"

record ('g, 'n) feature =
  geometry :: 'g
  properties :: "'n props option"

text \<open>\<^verbatim>\<open>feature.properties?.k\<close>: \<open>undefined\<close> when the bag is \<open>null\<close> or has no such key.\<close>

definition prop_opt :: "('g, 'n) feature \<Rightarrow> string \<Rightarrow> 'n jsval" where
  "prop_opt feature k =
     (case properties feature of
        None \<Rightarrow> JUndefined
      | Some ps \<Rightarrow> (case ps k of None \<Rightarrow> JUndefined | Some v \<Rightarrow> v))"

text \<open>\<^verbatim>\<open>feature.properties.k\<close>: reading a key of \<open>null\<close> throws a TypeError.\<close>

definition prop_strict :: "('g, 'n) feature \<Rightarrow> string \<Rightarrow> error + 'n jsval" where
  "prop_strict feature k =
     (case properties feature of
        None \<Rightarrow> Inl TypeError
      | Some ps \<Rightarrow> Inr (case ps k of None \<Rightarrow> JUndefined | Some v \<Rightarrow> v))"

section \<open>Project identifiers\<close>

definition colours :: "string list" where
  "colours = [''#E6C229'', ''#F17105'', ''#D11149'', ''#6610F2'', ''#1A8FE3'']"

text \<open>
  \<^verbatim>\<open>Array.from(new Set(xs))\<close>: a set keeps its members in insertion order, and adding a
  member it already has changes nothing.
\<close>

definition set_add :: "'a list \<Rightarrow> 'a \<Rightarrow> 'a list" where
  "set_add acc x = (if x \<in> set acc then acc else acc @ [x])"

definition array_from_set :: "'a list \<Rightarrow> 'a list" where
  "array_from_set xs = foldl set_add [] xs"

definition project_ids :: "('g, 'n) feature list \<Rightarrow> 'n jsval list" where
  "project_ids fs =
     array_from_set
       (filter (\<lambda>v. v \<noteq> JNull) (map (\<lambda>feature. prop_opt feature ''Project__Name'') fs))"

section \<open>Project colours\<close>

text \<open>
  \<^verbatim>\<open>Object.fromEntries\<close>: every key is converted to a string, and a later entry
  overwrites an earlier one with the same key.
\<close>

definition put_entry :: "'n host \<Rightarrow> (string \<rightharpoonup> 'v) \<Rightarrow> 'n jsval \<times> 'v \<Rightarrow> (string \<rightharpoonup> 'v)" where
  "put_entry H obj e = obj(js_to_string H (fst e) \<mapsto> snd e)"

definition from_entries :: "'n host \<Rightarrow> ('n jsval \<times> 'v) list \<Rightarrow> (string \<rightharpoonup> 'v)" where
  "from_entries H es = foldl (put_entry H) Map.empty es"

definition colour_entries :: "'n jsval list \<Rightarrow> ('n jsval \<times> string) list" where
  "colour_entries ps =
     map (\<lambda>(index, project). (project, colours ! (index mod length colours))) (enumerate 0 ps)"

definition project_colours :: "'n host \<Rightarrow> ('g, 'n) feature list \<Rightarrow> (string \<rightharpoonup> string)" where
  "project_colours H fs = from_entries H (colour_entries (project_ids fs))"

text \<open>\<^verbatim>\<open>obj[k]\<close> on an object of own string-valued keys.\<close>

definition obj_get :: "'n host \<Rightarrow> (string \<rightharpoonup> string) \<Rightarrow> 'n jsval \<Rightarrow> 'n jsval" where
  "obj_get H obj k = (case obj (js_to_string H k) of None \<Rightarrow> JUndefined | Some c \<Rightarrow> JStr c)"

section \<open>Project summary\<close>

record 'n summary =
  name :: "'n jsval"
  colour :: "'n jsval"
  count :: nat
  totalArea :: "'n jsval"
  owner :: "'n jsval"

text \<open>The reducer \<^verbatim>\<open>(sum, feature) => sum + (feature.properties?.area_acres || 0)\<close>, with \<open>acc\<close> for \<open>sum\<close>.\<close>

definition add_area :: "'n::{zero,one} host \<Rightarrow> 'n jsval \<Rightarrow> ('g, 'n) feature \<Rightarrow> 'n jsval" where
  "add_area H acc feature = js_plus H acc (js_or (prop_opt feature ''area_acres'') (JNum 0))"

definition total_area :: "'n::{zero,one} host \<Rightarrow> ('g, 'n) feature list \<Rightarrow> 'n jsval" where
  "total_area H project_features = foldl (add_area H) (JNum 0) project_features"

definition project_features_of :: "('g, 'n) feature list \<Rightarrow> 'n jsval \<Rightarrow> ('g, 'n) feature list" where
  "project_features_of fs project_id =
     filter (\<lambda>feature. js_strict_eq (prop_opt feature ''Project__Name'') project_id) fs"

definition summarise :: "'n::{zero,one} host \<Rightarrow> ('g, 'n) feature list \<Rightarrow> 'n jsval \<Rightarrow> 'n summary" where
  "summarise H fs project_id =
     (let project_features = project_features_of fs project_id
      in \<lparr> name = project_id,
           colour = obj_get H (project_colours H fs) project_id,
           count = length project_features,
           totalArea = total_area H project_features,
           owner = (case project_features of
                      [] \<Rightarrow> JUndefined
                    | first # _ \<Rightarrow> prop_opt first ''owner'') \<rparr>)"

definition project_summary :: "'n::{zero,one} host \<Rightarrow> ('g, 'n) feature list \<Rightarrow> 'n summary list" where
  "project_summary H fs = map (summarise H fs) (project_ids fs)"

section \<open>Feature enrichment\<close>

definition bind :: "error + 'a \<Rightarrow> ('a \<Rightarrow> error + 'b) \<Rightarrow> error + 'b" where
  "bind r k = (case r of Inl e \<Rightarrow> Inl e | Inr x \<Rightarrow> k x)"

text \<open>\<^verbatim>\<open>{...feature.properties}\<close>: spreading \<open>null\<close> gives the empty object.\<close>

definition spread :: "'n props option \<Rightarrow> 'n props" where
  "spread ps = (case ps of None \<Rightarrow> Map.empty | Some m \<Rightarrow> m)"

definition process_feature ::
    "'n::zero host \<Rightarrow> (string \<rightharpoonup> string) \<Rightarrow> ('g, 'n) feature \<Rightarrow> error + ('g, 'n) feature" where
  "process_feature H pc feature =
     bind (if js_truthy (prop_opt feature ''Project__Name'')
           then bind (prop_strict feature ''Project__Name'') (\<lambda>p. Inr (obj_get H pc p))
           else Inr (JStr ''#888888''))
       (\<lambda>colour.
     bind (if js_truthy (prop_opt feature ''Project__Name'')
           then bind (prop_strict feature ''Project__Name'')
                  (\<lambda>p. Inr (''<br/>Project: '' @ js_to_string H p))
           else Inr '''')
       (\<lambda>project_line.
     let description =
           ''<strong>'' @ js_to_string H (prop_opt feature ''name'') @ ''</strong>'' @
           ''<p>Owner: '' @ js_to_string H (prop_opt feature ''owner'') @
           ''<br/>Area: '' @ js_to_string H (prop_opt feature ''area_acres'') @ '' acres'' @
           project_line @
           ''</p>''
     in Inr (feature\<lparr>properties :=
               Some ((spread (properties feature))
                       (''fillColor'' \<mapsto> colour, ''description'' \<mapsto> JStr description))\<rparr>)))"

fun map_result :: "('a \<Rightarrow> error + 'b) \<Rightarrow> 'a list \<Rightarrow> error + 'b list" where
  "map_result f [] = Inr []"
| "map_result f (x # xs) =
     bind (f x) (\<lambda>y. bind (map_result f xs) (\<lambda>ys. Inr (y # ys)))"

definition processFeatures ::
    "'n::zero host \<Rightarrow> ('g, 'n) feature list \<Rightarrow> (string \<rightharpoonup> string) \<Rightarrow> error + ('g, 'n) feature list" where
  "processFeatures H features pc = map_result (process_feature H pc) features"

definition processedFeatures :: "'n::zero host \<Rightarrow> ('g, 'n) feature list \<Rightarrow> error + ('g, 'n) feature list" where
  "processedFeatures H fs = processFeatures H fs (project_colours H fs)"

section \<open>Reading the result\<close>

text \<open>
  What \<open>process_feature\<close> computes for one feature, without the error plumbing: the
  colour, the description and the enriched feature. Lemma \<open>process_feature_enriched\<close>
  below shows that \<open>process_feature\<close> returns exactly this.
\<close>

definition fill_colour_of :: "'n::zero host \<Rightarrow> (string \<rightharpoonup> string) \<Rightarrow> ('g, 'n) feature \<Rightarrow> 'n jsval" where
  "fill_colour_of H pc f =
     (if js_truthy (prop_opt f ''Project__Name'')
      then obj_get H pc (prop_opt f ''Project__Name'') else JStr ''#888888'')"

definition description_of :: "'n::zero host \<Rightarrow> ('g, 'n) feature \<Rightarrow> string" where
  "description_of H f =
     ''<strong>'' @ js_to_string H (prop_opt f ''name'') @ ''</strong>'' @
     ''<p>Owner: '' @ js_to_string H (prop_opt f ''owner'') @
     ''<br/>Area: '' @ js_to_string H (prop_opt f ''area_acres'') @ '' acres'' @
     (if js_truthy (prop_opt f ''Project__Name'')
      then ''<br/>Project: '' @ js_to_string H (prop_opt f ''Project__Name'') else []) @
     ''</p>''"

definition enriched :: "'n::zero host \<Rightarrow> (string \<rightharpoonup> string) \<Rightarrow> ('g, 'n) feature \<Rightarrow> ('g, 'n) feature" where
  "enriched H pc f =
     f\<lparr>properties :=
         Some ((spread (properties f))
           (''fillColor'' \<mapsto> fill_colour_of H pc f,
            ''description'' \<mapsto> JStr (description_of H f)))\<rparr>"

text \<open>The \<open>fillColor\<close> and \<open>description\<close> columns of a result.\<close>

definition fill_colours :: "error + ('g, 'n) feature list \<Rightarrow> error + 'n jsval list" where
  "fill_colours r = bind r (\<lambda>out. Inr (map (\<lambda>f. prop_opt f ''fillColor'') out))"

definition descriptions :: "error + ('g, 'n) feature list \<Rightarrow> error + 'n jsval list" where
  "descriptions r = bind r (\<lambda>out. Inr (map (\<lambda>f. prop_opt f ''description'') out))"

text \<open>A key is missing when the bag is \<open>null\<close> or does not have it.\<close>

definition missing :: "('g, 'n) feature \<Rightarrow> string \<Rightarrow> bool" where
  "missing f k = (case properties f of None \<Rightarrow> True | Some ps \<Rightarrow> ps k = None)"

section \<open>The sum of the areas\<close>

text \<open>
  The area a feature contributes to a total: its \<open>area_acres\<close> when that is a number
  (negative ones included), 0 when it is missing or falsy. A feature is \<open>area_typed\<close>
  when its \<open>area_acres\<close> is a number or falsy, as the data model has it.
\<close>

definition area_value :: "('g, 'n::zero) feature \<Rightarrow> 'n" where
  "area_value f = (case prop_opt f ''area_acres'' of JNum n \<Rightarrow> n | _ \<Rightarrow> 0)"

definition area_typed :: "('g, 'n::zero) feature \<Rightarrow> bool" where
  "area_typed f =
     (case prop_opt f ''area_acres'' of JNum n \<Rightarrow> True | v \<Rightarrow> \<not> js_truthy v)"

text \<open>
  The sum of a list of numbers as the program's arithmetic gives it: from 0, one number
  after the other in the order of the list, each step being the host's addition. Once a
  step gives \<open>NaN\<close> the sum is \<open>NaN\<close>.
\<close>

fun sum_from :: "'n host \<Rightarrow> 'n option \<Rightarrow> 'n list \<Rightarrow> 'n option" where
  "sum_from H acc [] = acc"
| "sum_from H acc (x # xs) =
     sum_from H (case acc of None \<Rightarrow> None | Some a \<Rightarrow> number_add H a x) xs"

definition number_or_nan :: "'n option \<Rightarrow> 'n jsval" where
  "number_or_nan r = (case r of None \<Rightarrow> JNaN | Some z \<Rightarrow> JNum z)"

definition number_sum :: "'n::zero host \<Rightarrow> 'n list \<Rightarrow> 'n jsval" where
  "number_sum H xs = number_or_nan (sum_from H (Some 0) xs)"

section \<open>A host for the samples\<close>

text \<open>
  The samples use numbers that are integers. On them binary64 addition is the exact sum
  rounded to 53 significant bits, ties to the even one (overflow to infinity, beyond
  \<open>2^1024\<close>, is not reached), and the rendering is the decimal one (as long as the
  magnitude is below \<open>10^21\<close>).
\<close>

fun bit_length :: "nat \<Rightarrow> nat" where
  "bit_length n = (if n = 0 then 0 else Suc (bit_length (n div 2)))"

declare bit_length.simps [simp del]

definition round53 :: "int \<Rightarrow> int" where
  "round53 n =
     (let a = nat \<bar>n\<bar>;
          k = bit_length a - 53;
          q = a div 2 ^ k;
          r = a mod 2 ^ k;
          m = (if 2 ^ k < 2 * r \<or> (2 ^ k = 2 * r \<and> odd q) then q + 1 else q)
      in sgn n * int (m * 2 ^ k))"

definition digit_char :: "nat \<Rightarrow> char" where
  "digit_char d = ''0123456789'' ! (d mod 10)"

fun show_nat :: "nat \<Rightarrow> string" where
  "show_nat n = (if n < 10 then [digit_char n] else show_nat (n div 10) @ [digit_char (n mod 10)])"

declare show_nat.simps [simp del]

definition show_int :: "int \<Rightarrow> string" where
  "show_int i = (if i < 0 then CHR ''-'' # show_nat (nat (- i)) else show_nat (nat i))"

definition integer_host :: "int host" where
  "integer_host =
     \<lparr> number_add = (\<lambda>x y. Some (round53 (x + y))), number_to_string = show_int \<rparr>"

section \<open>Sample collections\<close>

text \<open>A feature without geometry whose property bag is the object literal \<open>kvs\<close>.\<close>

definition paddock :: "(string \<times> int jsval) list \<Rightarrow> (unit, int) feature" where
  "paddock kvs = \<lparr> geometry = (), properties = Some (map_of kvs) \<rparr>"

definition example_input :: "(unit, int) feature list" where
  "example_input =
     [paddock [(''Project__Name'', JStr ''A''), (''area_acres'', JNum 10), (''owner'', JStr ''X'')],
      paddock [(''Project__Name'', JStr ''A''), (''area_acres'', JNum 5), (''owner'', JStr ''Y'')],
      paddock [(''Project__Name'', JStr ''B''), (''area_acres'', JNum 3), (''owner'', JStr ''Z'')],
      paddock [(''area_acres'', JNum 1)]]"

definition absent_and_null :: "(unit, int) feature list" where
  "absent_and_null =
     [paddock [(''name'', JStr ''North'')],
      paddock [(''Project__Name'', JNull)],
      paddock [(''Project__Name'', JStr ''A'')]]"

definition unassigned_only :: "(unit, int) feature list" where
  "unassigned_only = [paddock [(''area_acres'', JNum 1)]]"

definition undefined_twice :: "(unit, int) feature list" where
  "undefined_twice = [paddock [(''Project__Name'', JStr ''undefined'')], paddock []]"

definition empty_named :: "(unit, int) feature list" where
  "empty_named = [paddock [(''Project__Name'', JStr []), (''area_acres'', JNum 2)]]"

definition blank_project :: "(unit, int) feature list" where
  "blank_project = [paddock [(''name'', JStr ''North''), (''Project__Name'', JStr [])]]"

definition mixed_areas :: "(unit, int) feature list" where
  "mixed_areas =
     [paddock [(''Project__Name'', JStr ''A''), (''area_acres'', JNum 10)],
      paddock [(''Project__Name'', JStr ''a''), (''area_acres'', JNum 7)],
      paddock [(''Project__Name'', JStr ''A''), (''area_acres'', JNum (- 4))],
      paddock [(''Project__Name'', JStr ''A'')],
      paddock [(''Project__Name'', JStr ''A ''), (''area_acres'', JNum 2)]]"

definition two_paddocks :: "(unit, int) feature list" where
  "two_paddocks =
     [paddock [(''name'', JStr ''North''), (''owner'', JStr ''X''), (''area_acres'', JNum 12),
               (''Project__Name'', JStr ''A'')],
      paddock []]"

definition blank_first :: "(unit, int) feature list" where
  "blank_first =
     [paddock [(''Project__Name'', JStr []), (''owner'', JStr ''Q'')],
      paddock [(''Project__Name'', JStr ''A'')]]"

definition blank_among :: "(unit, int) feature list" where
  "blank_among =
     [paddock [(''Project__Name'', JStr ''A'')],
      paddock [(''name'', JStr ''South''), (''Project__Name'', JStr [])]]"

definition one_project :: "(unit, int) feature list" where
  "one_project = [paddock [(''Project__Name'', JStr ''Creek'')]]"

section \<open>The sample host on small integers\<close>

lemma bit_length_le: "a < 2 ^ k \<Longrightarrow> bit_length a \<le> k"
proof (induction k arbitrary: a)
  case 0
  then show ?case by (simp add: bit_length.simps)
next
  case (Suc k)
  show ?case
  proof (cases "a = 0")
    case True
    then show ?thesis by (simp add: bit_length.simps)
  next
    case False
    from Suc.prems have "a div 2 < 2 ^ k" by simp
    from Suc.IH[OF this] False show ?thesis
      by (subst bit_length.simps) simp
  qed
qed

lemma round53_small: "\<bar>n\<bar> < 2 ^ 53 \<Longrightarrow> round53 n = n"
proof -
  assume "\<bar>n\<bar> < 2 ^ 53"
  then have "nat \<bar>n\<bar> < 2 ^ 53"
    by (simp add: nat_less_iff)
  then have "bit_length (nat \<bar>n\<bar>) - 53 = 0"
    using bit_length_le[of "nat \<bar>n\<bar>" 53] by simp
  then show ?thesis
    by (simp add: round53_def Let_def mult_sgn_abs)
qed

lemma integer_host_add_small:
  "\<bar>x + y\<bar> < 2 ^ 53 \<Longrightarrow> number_add integer_host x y = Some (x + y)"
  by (simp add: integer_host_def round53_small)

lemma integer_host_to_string: "number_to_string integer_host = show_int"
  by (simp add: integer_host_def)

text \<open>The sample host rounds as the doubles do: \<open>2^53 + 1\<close> is \<open>2^53\<close>.\<close>

lemma bit_length_double: "0 < n \<Longrightarrow> bit_length (2 * n) = Suc (bit_length n)"
  by (subst bit_length.simps) simp

lemma bit_length_pow: "bit_length (2 ^ k) = Suc k"
proof (induction k)
  case 0
  show ?case by (simp add: bit_length.simps)
next
  case (Suc k)
  then show ?case by (simp add: bit_length_double)
qed

lemma bit_length_pow_succ: "0 < k \<Longrightarrow> bit_length (2 ^ k + 1) = Suc k"
proof -
  assume "0 < k"
  then obtain j where k: "k = Suc j" by (cases k) auto
  have "(2 ^ k + 1) div 2 = (2::nat) ^ j"
    by (simp add: k)
  then have "bit_length (2 ^ k + 1) = Suc (bit_length (2 ^ j))"
    by (subst bit_length.simps) simp
  then show ?thesis
    by (simp add: bit_length_pow k)
qed

lemma integer_host_rounds:
  "number_add integer_host (2 ^ 53) 1 = Some (2 ^ 53)"
proof -
  have n: "nat \<bar>2 ^ 53 + 1 :: int\<bar> = 2 ^ 53 + 1"
    by (simp add: nat_add_distrib nat_power_eq)
  have b: "bit_length (2 ^ 53 + 1) - 53 = 1"
    using bit_length_pow_succ[of 53] by simp
  have q: "((2::nat) ^ 53 + 1) div 2 ^ 1 = 2 ^ 52"
    by simp
  have r: "((2::nat) ^ 53 + 1) mod 2 ^ 1 = 1"
    by simp
  have "round53 (2 ^ 53 + 1) = 2 ^ 53"
    unfolding round53_def Let_def n b q r by simp
  then show ?thesis
    by (simp add: integer_host_def)
qed

lemmas eval_defs = integer_host_add_small integer_host_to_string paddock_def project_ids_def
  prop_opt_def array_from_set_def set_add_def
  project_summary_def summarise_def project_features_of_def js_strict_eq_def total_area_def
  add_area_def js_or_def obj_get_def project_colours_def from_entries_def put_entry_def
  colour_entries_def colours_def

lemmas enrich_defs = processedFeatures_def processFeatures_def process_feature_def
  prop_strict_def bind_def spread_def fill_colours_def descriptions_def

section \<open>The set of project identifiers\<close>

lemma set_foldl_set_add: "set (foldl set_add acc xs) = set acc \<union> set xs"
  by (induction xs arbitrary: acc) (auto simp: set_add_def)

lemma distinct_foldl_set_add: "distinct acc \<Longrightarrow> distinct (foldl set_add acc xs)"
  by (induction xs arbitrary: acc) (auto simp: set_add_def)

lemma set_array_from_set: "set (array_from_set xs) = set xs"
  by (simp add: array_from_set_def set_foldl_set_add)

lemma distinct_array_from_set: "distinct (array_from_set xs)"
  by (simp add: array_from_set_def distinct_foldl_set_add)

lemma set_project_ids:
  "set (project_ids fs) = {v. v \<noteq> JNull \<and> (\<exists>f\<in>set fs. prop_opt f ''Project__Name'' = v)}"
  by (auto simp: project_ids_def set_array_from_set)

lemma distinct_project_ids: "distinct (project_ids fs)"
  by (simp add: project_ids_def distinct_array_from_set)

text \<open>The identifiers come in the order of their first appearance.\<close>

lemma array_from_set_snoc: "array_from_set (xs @ [x]) = set_add (array_from_set xs) x"
  by (simp add: array_from_set_def)

lemma array_from_set_first_appearance: "array_from_set xs = rev (remdups (rev xs))"
proof (induction xs rule: rev_induct)
  case Nil
  show ?case by (simp add: array_from_set_def)
next
  case (snoc x xs)
  have "set (array_from_set xs) = set xs"
    by (rule set_array_from_set)
  with snoc show ?case
    by (simp add: array_from_set_snoc set_add_def)
qed

section \<open>The colour object\<close>

lemma foldl_put_entry_lookup:
  "foldl (put_entry H) m es key = Some c \<Longrightarrow> m key = Some c \<or> c \<in> snd ` set es"
  by (induction es arbitrary: m) (fastforce simp: put_entry_def split: if_splits)+

lemma dom_foldl_put_entry:
  "dom (foldl (put_entry H) m es) = dom m \<union> js_to_string H ` fst ` set es"
  by (induction es arbitrary: m) (auto simp: put_entry_def)

lemma colour_entries_fst: "map fst (colour_entries ps) = ps"
  by (simp add: colour_entries_def map_idI comp_def case_prod_beta flip: enumerate_map_upt)

lemma length_colours: "length colours = 5"
  by (simp add: colours_def)

lemma colour_entries_snd: "snd ` set (colour_entries ps) \<subseteq> set colours"
  by (auto simp: colour_entries_def in_set_enumerate_eq length_colours intro!: nth_mem)

lemma colour_key_defined:
  assumes "p \<in> set ps"
  shows "\<exists>c\<in>set colours. obj_get H (from_entries H (colour_entries ps)) p = JStr c"
proof -
  have "js_to_string H p \<in> dom (from_entries H (colour_entries ps))"
    unfolding from_entries_def dom_foldl_put_entry using assms colour_entries_fst[of ps]
    by (metis UnCI image_eqI list.set_map)
  then obtain c where c: "from_entries H (colour_entries ps) (js_to_string H p) = Some c"
    by blast
  then have "c \<in> set colours"
    unfolding from_entries_def
    using foldl_put_entry_lookup[of H Map.empty "colour_entries ps" "js_to_string H p" c]
      colour_entries_snd[of ps]
    by auto
  with c show ?thesis by (auto simp: obj_get_def)
qed

text \<open>
  Where the keys of the projects are pairwise different, the project at position \<open>i\<close>
  reads the palette colour \<open>i mod 5\<close>.
\<close>

lemma foldl_put_entry_fresh:
  "key \<notin> js_to_string H ` fst ` set es \<Longrightarrow> foldl (put_entry H) m es key = m key"
  by (induction es arbitrary: m) (auto simp: put_entry_def)

lemma foldl_put_entry_distinct:
  "distinct (map (js_to_string H \<circ> fst) es) \<Longrightarrow> i < length es \<Longrightarrow>
   foldl (put_entry H) m es (js_to_string H (fst (es ! i))) = Some (snd (es ! i))"
proof (induction es arbitrary: m i)
  case Nil
  then show ?case by simp
next
  case (Cons e es)
  show ?case
  proof (cases i)
    case 0
    have "js_to_string H (fst e) \<notin> js_to_string H ` fst ` set es"
      using Cons.prems(1) by (auto simp: image_iff)
    then have "foldl (put_entry H) (put_entry H m e) es (js_to_string H (fst e)) =
        put_entry H m e (js_to_string H (fst e))"
      by (rule foldl_put_entry_fresh)
    also have "\<dots> = Some (snd e)"
      by (simp add: put_entry_def)
    finally show ?thesis
      using 0 by simp
  next
    case (Suc j)
    with Cons show ?thesis by simp
  qed
qed

lemma colour_entries_nth:
  "i < length ps \<Longrightarrow> colour_entries ps ! i = (ps ! i, colours ! (i mod length colours))"
  by (simp add: colour_entries_def nth_enumerate_eq)

lemma length_colour_entries: "length (colour_entries ps) = length ps"
  by (simp add: colour_entries_def)

lemma colour_of_position:
  assumes "distinct (map (js_to_string H) ps)" and "i < length ps"
  shows "obj_get H (from_entries H (colour_entries ps)) (ps ! i) = JStr (colours ! (i mod 5))"
proof -
  have "map (js_to_string H \<circ> fst) (colour_entries ps) = map (js_to_string H) ps"
    using colour_entries_fst[of ps] by (metis map_map)
  with assms(1) have d: "distinct (map (js_to_string H \<circ> fst) (colour_entries ps))"
    by simp
  from foldl_put_entry_distinct[OF d, of i Map.empty] assms(2)
  show ?thesis
    by (simp add: from_entries_def obj_get_def colour_entries_nth length_colour_entries
        length_colours)
qed

section \<open>Enrichment never throws\<close>

lemma process_feature_enriched: "process_feature H pc f = Inr (enriched H pc f)"
proof (cases "properties f")
  case None
  then show ?thesis
    by (simp add: process_feature_def enriched_def fill_colour_of_def description_of_def
        prop_opt_def bind_def)
next
  case (Some ps)
  then show ?thesis
    by (simp add: process_feature_def enriched_def fill_colour_of_def description_of_def
        prop_opt_def prop_strict_def bind_def)
qed

lemma map_result_Inr:
  "(\<And>x. x \<in> set xs \<Longrightarrow> f x = Inr (g x)) \<Longrightarrow> map_result f xs = Inr (map g xs)"
  by (induction xs) (simp_all add: bind_def)

lemma processFeatures_enriched: "processFeatures H fs pc = Inr (map (enriched H pc) fs)"
  unfolding processFeatures_def by (rule map_result_Inr) (rule process_feature_enriched)

lemma prop_opt_enriched:
  "prop_opt (enriched H pc f) k =
     (if k = ''description'' then JStr (description_of H f)
      else if k = ''fillColor'' then fill_colour_of H pc f
      else prop_opt f k)"
  by (simp add: enriched_def prop_opt_def spread_def split: option.splits)

lemma geometry_enriched: "geometry (enriched H pc f) = geometry f"
  by (simp add: enriched_def)

lemma enriched_idem: "enriched H pc (enriched H pc f) = enriched H pc f"
proof -
  have d: "description_of H (enriched H pc f) = description_of H f"
    by (simp add: description_of_def prop_opt_enriched)
  have c: "fill_colour_of H pc (enriched H pc f) = fill_colour_of H pc f"
    by (simp add: fill_colour_of_def prop_opt_enriched)
  have "enriched H pc (enriched H pc f) =
      (enriched H pc f)\<lparr>properties :=
         Some ((spread (properties (enriched H pc f)))
           (''fillColor'' \<mapsto> fill_colour_of H pc f, ''description'' \<mapsto> JStr (description_of H f)))\<rparr>"
    by (subst enriched_def) (simp only: d c)
  also have "\<dots> = enriched H pc f"
    by (simp add: enriched_def spread_def)
  finally show ?thesis .
qed

lemma missing_undefined: "missing f k \<Longrightarrow> prop_opt f k = JUndefined"
  by (simp add: missing_def prop_opt_def split: option.splits)

section \<open>Summaries\<close>

lemma length_project_summary: "length (project_summary H fs) = length (project_ids fs)"
  by (simp add: project_summary_def)

lemma add_area_number:
  "area_typed f \<Longrightarrow>
   add_area H (number_or_nan acc) f =
     number_or_nan (case acc of None \<Rightarrow> None | Some a \<Rightarrow> number_add H a (area_value f))"
  by (cases acc; cases "prop_opt f ''area_acres''")
     (auto simp: add_area_def area_typed_def area_value_def js_or_def number_or_nan_def
        split: option.splits)

lemma foldl_add_area:
  "\<forall>f\<in>set fs. area_typed f \<Longrightarrow>
   foldl (add_area H) (number_or_nan acc) fs = number_or_nan (sum_from H acc (map area_value fs))"
  by (induction fs arbitrary: acc) (simp_all add: add_area_number)

lemma total_area_typed:
  "\<forall>f\<in>set fs. area_typed f \<Longrightarrow> total_area H fs = number_sum H (map area_value fs)"
  using foldl_add_area[of fs H "Some 0"]
  by (simp add: total_area_def number_sum_def number_or_nan_def)

text \<open>
  Where the host's addition is exact (it is the \<open>+\<close> of a monoid and never gives
  \<open>NaN\<close>), the sum is the mathematical one.
\<close>

lemma sum_from_exact:
  fixes H :: "'n::monoid_add host"
  assumes "\<And>x y. number_add H x y = Some (x + y)"
  shows "sum_from H (Some a) xs = Some (a + sum_list xs)"
  by (induction xs arbitrary: a) (simp_all add: assms add.assoc)

lemma number_sum_exact:
  fixes H :: "'n::monoid_add host"
  assumes "\<And>x y. number_add H x y = Some (x + y)"
  shows "number_sum H xs = JNum (sum_list xs)"
  by (simp add: number_sum_def number_or_nan_def sum_from_exact[OF assms])

text \<open>
  The counts add up to the number of features whose \<open>Project__Name\<close> is neither
  \<open>null\<close> nor \<open>NaN\<close>; the features without the key are among them.
\<close>

lemma count_summarise:
  "count (summarise H fs p) =
     length (filter (\<lambda>f. js_strict_eq (prop_opt f ''Project__Name'') p) fs)"
  by (simp add: summarise_def Let_def project_features_of_def)

lemma sum_list_indicator:
  "distinct ps \<Longrightarrow>
   sum_list (map (\<lambda>p. if a = p \<and> Q p then 1 else 0) ps) = (if a \<in> set ps \<and> Q a then 1 else (0::nat))"
  by (induction ps) auto

lemma sum_length_filter:
  "distinct ps \<Longrightarrow>
   sum_list (map (\<lambda>p. length (filter (\<lambda>f. g f = p \<and> Q p) fs)) ps) =
     length (filter (\<lambda>f. g f \<in> set ps \<and> Q (g f)) fs)"
proof (induction fs)
  case Nil
  show ?case by simp
next
  case (Cons f fs)
  have "sum_list (map (\<lambda>p. length (filter (\<lambda>f. g f = p \<and> Q p) (f # fs))) ps) =
        sum_list (map (\<lambda>p. (if g f = p \<and> Q p then 1 else 0) +
                            length (filter (\<lambda>f. g f = p \<and> Q p) fs)) ps)"
    by (rule arg_cong[where f = sum_list]) (rule map_cong, auto)
  also have "\<dots> = sum_list (map (\<lambda>p. if g f = p \<and> Q p then 1 else 0) ps) +
                   sum_list (map (\<lambda>p. length (filter (\<lambda>f. g f = p \<and> Q p) fs)) ps)"
    by (simp add: sum_list_addf)
  also have "\<dots> = (if g f \<in> set ps \<and> Q (g f) then 1 else 0) +
                   length (filter (\<lambda>f. g f \<in> set ps \<and> Q (g f)) fs)"
    using Cons by (simp add: sum_list_indicator)
  finally show ?case by simp
qed

lemma count_sum_not_null:
  "sum_list (map count (project_summary H fs)) =
     length (filter (\<lambda>f. prop_opt f ''Project__Name'' \<noteq> JNull \<and>
                          prop_opt f ''Project__Name'' \<noteq> JNaN) fs)"
proof -
  have "sum_list (map count (project_summary H fs)) =
        sum_list (map (\<lambda>p. length (filter (\<lambda>f. prop_opt f ''Project__Name'' = p \<and> p \<noteq> JNaN) fs))
                   (project_ids fs))"
    by (simp add: project_summary_def comp_def count_summarise js_strict_eq_def cong: conj_cong)
  also have "\<dots> = length (filter (\<lambda>f. prop_opt f ''Project__Name'' \<in> set (project_ids fs) \<and>
                                       prop_opt f ''Project__Name'' \<noteq> JNaN) fs)"
    by (rule sum_length_filter) (rule distinct_project_ids)
  also have "\<dots> = length (filter (\<lambda>f. prop_opt f ''Project__Name'' \<noteq> JNull \<and>
                          prop_opt f ''Project__Name'' \<noteq> JNaN) fs)"
    by (rule arg_cong[where f = length], rule filter_cong) (auto simp: set_project_ids)
  finally show ?thesis .
qed

section \<open>The worked example\<close>

text \<open>
  Claim C1. On the four-feature example the pipeline was expected to give the projects A
  and B, the colour map \<open>{A: palette[0], B: palette[1]}\<close> and two summaries, the fourth
  feature (no \<open>Project__Name\<close>) being grey and in no summary. The code keeps
  \<open>undefined\<close> as a third project: it gets the third palette colour and a summary of
  its own, which counts the fourth feature and its area, while that feature is drawn grey.
\<close>

theorem example_pipeline_actual:
  "project_ids example_input = [JStr ''A'', JStr ''B'', JUndefined] \<and>
   project_colours integer_host example_input ''A'' = Some ''#E6C229'' \<and>
   project_colours integer_host example_input ''B'' = Some ''#F17105'' \<and>
   project_colours integer_host example_input ''undefined'' = Some ''#D11149'' \<and>
   project_summary integer_host example_input =
     [\<lparr>name = JStr ''A'', colour = JStr ''#E6C229'', count = 2, totalArea = JNum 15,
        owner = JStr ''X''\<rparr>,
      \<lparr>name = JStr ''B'', colour = JStr ''#F17105'', count = 1, totalArea = JNum 3,
        owner = JStr ''Z''\<rparr>,
      \<lparr>name = JUndefined, colour = JStr ''#D11149'', count = 1, totalArea = JNum 1,
        owner = JUndefined\<rparr>] \<and>
   fill_colours (processedFeatures integer_host example_input) =
     Inr [JStr ''#E6C229'', JStr ''#E6C229'', JStr ''#F17105'', JStr ''#888888'']"
  by (simp add: example_input_def eval_defs enrich_defs)

section \<open>Project extraction\<close>

text \<open>
  Claim C2. The extractor was expected to drop absent as well as \<open>null\<close> project names.
  Its filter \<^verbatim>\<open>v !== null\<close> drops \<open>null\<close> only: a feature without the key yields
  \<open>undefined\<close>, which stays in the output as a project of its own.
\<close>

theorem project_ids_keeps_absent:
  "project_ids absent_and_null = [JUndefined, JStr ''A'']"
  by (simp add: absent_and_null_def eval_defs)

text \<open>
  Claim C3. The counts of the summaries were expected to add up to the number of
  features with a present, non-null \<open>Project__Name\<close>. A collection of one feature without
  the key has no such feature, and a summary (for \<open>undefined\<close>) of count 1.
\<close>

theorem count_sum_counts_absent:
  "sum_list (map count (project_summary integer_host unassigned_only)) = 1 \<and>
   length (filter (\<lambda>f. prop_opt f ''Project__Name'' \<noteq> JUndefined \<and>
                        prop_opt f ''Project__Name'' \<noteq> JNull) unassigned_only) = 0"
  by (simp add: unassigned_only_def eval_defs)

section \<open>Colour assignment\<close>

text \<open>
  Claim C5. The project at position \<open>i\<close> was expected to be mapped to
  \<open>palette[i mod 5]\<close>. The retained \<open>undefined\<close> is stored under the key
  \<open>"undefined"\<close>; where a project of that name comes first, its entry is overwritten and
  position 0 reads the second palette colour.
\<close>

theorem colour_key_collision:
  "project_ids undefined_twice = [JStr ''undefined'', JUndefined] \<and>
   obj_get integer_host (project_colours integer_host undefined_twice) (project_ids undefined_twice ! 0) =
     JStr ''#F17105'' \<and>
   colours ! (0 mod 5) = ''#E6C229''"
  by (simp add: undefined_twice_def eval_defs)

section \<open>Feature enrichment\<close>

text \<open>
  What the enricher returns, for every collection and colour map: a collection of the
  same length and order, in which the \<open>fillColor\<close> of a feature is the colour map's
  entry for its \<open>Project__Name\<close> when that name is truthy and \<open>#888888\<close> otherwise,
  and the geometry and every property other than \<open>fillColor\<close> and \<open>description\<close> are
  those of the input feature.
\<close>

lemma processFeatures_enriches:
  "\<exists>out. processFeatures H fs pc = Inr out \<and> length out = length fs \<and>
     (\<forall>i<length fs.
        prop_opt (out ! i) ''fillColor'' =
          (if js_truthy (prop_opt (fs ! i) ''Project__Name'')
           then obj_get H pc (prop_opt (fs ! i) ''Project__Name'') else JStr ''#888888'') \<and>
        geometry (out ! i) = geometry (fs ! i) \<and>
        (\<forall>k. k \<noteq> ''fillColor'' \<and> k \<noteq> ''description'' \<longrightarrow>
             prop_opt (out ! i) k = prop_opt (fs ! i) k))"
  by (rule exI[of _ "map (enriched H pc) fs"])
     (simp add: processFeatures_enriched prop_opt_enriched geometry_enriched fill_colour_of_def)

text \<open>
  The \<open>description\<close> is, in this order, the name in bold, the owner line, the area line
  (the value of \<open>area_acres\<close> as the host renders it, followed by \<open> acres\<close>), the project
  line when \<open>Project__Name\<close> is truthy, and the closing tag. A missing \<open>name\<close>,
  \<open>owner\<close> or \<open>area_acres\<close> is rendered as \<open>undefined\<close>.
\<close>

lemma description_layout:
  "\<exists>out. processFeatures H fs pc = Inr out \<and> length out = length fs \<and>
     (\<forall>i<length fs.
        prop_opt (out ! i) ''description'' =
          JStr (''<strong>'' @ js_to_string H (prop_opt (fs ! i) ''name'') @ ''</strong>'' @
                ''<p>Owner: '' @ js_to_string H (prop_opt (fs ! i) ''owner'') @
                ''<br/>Area: '' @ js_to_string H (prop_opt (fs ! i) ''area_acres'') @ '' acres'' @
                (if js_truthy (prop_opt (fs ! i) ''Project__Name'')
                 then ''<br/>Project: '' @ js_to_string H (prop_opt (fs ! i) ''Project__Name'')
                 else []) @
                ''</p>'') \<and>
        (\<forall>k. missing (fs ! i) k \<longrightarrow> js_to_string H (prop_opt (fs ! i) k) = ''undefined''))"
  by (rule exI[of _ "map (enriched H pc) fs"])
     (simp add: processFeatures_enriched prop_opt_enriched description_of_def missing_undefined)

text \<open>A description with every field, and one with none.\<close>

lemma description_example:
  "descriptions (processedFeatures integer_host two_paddocks) =
     Inr [JStr ''<strong>North</strong><p>Owner: X<br/>Area: 12 acres<br/>Project: A</p>'',
          JStr ''<strong>undefined</strong><p>Owner: undefined<br/>Area: undefined acres</p>'']"
proof -
  have twelve: "show_int 12 = ''12''"
    by (simp add: show_int_def show_nat.simps digit_char_def)
  show ?thesis
    by (simp add: two_paddocks_def eval_defs enrich_defs twelve)
qed

text \<open>
  Claim C4. The \<open>fillColor\<close> of a feature was expected to be the colour map's entry for
  its \<open>Project__Name\<close> whenever that name is present and not \<open>null\<close>. For the one
  feature of \<open>empty_named\<close> the name is the empty string: the extractor keeps it as a
  project, the colour map built from the collection has the first palette colour for it,
  and the enricher, whose test is the truthiness of the name, fills the feature with the
  fallback \<open>#888888\<close>.
\<close>

theorem fillColor_empty_name_fallback:
  "prop_opt (empty_named ! 0) ''Project__Name'' = JStr [] \<and>
   project_ids empty_named = [JStr []] \<and>
   obj_get integer_host (project_colours integer_host empty_named)
     (prop_opt (empty_named ! 0) ''Project__Name'') = JStr ''#E6C229'' \<and>
   fill_colours (processedFeatures integer_host empty_named) = Inr [JStr ''#888888'']"
  by (simp add: empty_named_def eval_defs enrich_defs)

text \<open>
  Claim C7. The description was expected to have a project line if \<open>Project__Name\<close> is
  present. For the one feature of \<open>blank_project\<close> the key is present, with the empty
  string as value: the extractor keeps it as a project, with a summary that counts the
  feature, and the description, built under the truthiness test, has no project line.
\<close>

theorem description_empty_name_no_project_line:
  "\<not> missing (blank_project ! 0) ''Project__Name'' \<and>
   prop_opt (blank_project ! 0) ''Project__Name'' = JStr [] \<and>
   project_ids blank_project = [JStr []] \<and>
   map count (project_summary integer_host blank_project) = [1] \<and>
   descriptions (processedFeatures integer_host blank_project) =
     Inr [JStr ''<strong>North</strong><p>Owner: undefined<br/>Area: undefined acres</p>'']"
  by (simp add: blank_project_def missing_def eval_defs enrich_defs)

text \<open>
  Claim C8. Enriching the output of \<open>processFeatures\<close> again, with the same colour map,
  returns that output unchanged; in particular the \<open>fillColor\<close> and \<open>description\<close> of
  every feature are those of the first application.
\<close>

theorem processFeatures_idempotent:
  "\<exists>out. processFeatures H fs pc = Inr out \<and> processFeatures H out pc = Inr out \<and>
     fill_colours (processFeatures H out pc) = fill_colours (processFeatures H fs pc) \<and>
     descriptions (processFeatures H out pc) = descriptions (processFeatures H fs pc)"
  by (rule exI[of _ "map (enriched H pc) fs"])
     (simp add: processFeatures_enriched enriched_idem comp_def)

theorem processFeatures_idempotent_witness:
  "\<exists>out. processFeatures integer_host blank_first (project_colours integer_host blank_first) = Inr out \<and>
     processFeatures integer_host out (project_colours integer_host blank_first) = Inr out \<and>
     fill_colours (processFeatures integer_host out (project_colours integer_host blank_first)) =
       Inr [JStr ''#888888'', JStr ''#F17105''] \<and>
     descriptions (processFeatures integer_host out (project_colours integer_host blank_first)) =
       Inr [JStr ''<strong>undefined</strong><p>Owner: Q<br/>Area: undefined acres</p>'',
            JStr ''<strong>undefined</strong><p>Owner: undefined<br/>Area: undefined acres<br/>Project: A</p>'']"
proof -
  have f: "fill_colours (processFeatures integer_host blank_first (project_colours integer_host blank_first)) =
       Inr [JStr ''#888888'', JStr ''#F17105'']"
    by (simp add: blank_first_def eval_defs enrich_defs)
  have d: "descriptions (processFeatures integer_host blank_first (project_colours integer_host blank_first)) =
       Inr [JStr ''<strong>undefined</strong><p>Owner: Q<br/>Area: undefined acres</p>'',
            JStr ''<strong>undefined</strong><p>Owner: undefined<br/>Area: undefined acres<br/>Project: A</p>'']"
    by (simp add: blank_first_def eval_defs enrich_defs)
  from processFeatures_idempotent[of integer_host blank_first "project_colours integer_host blank_first"] f d
  show ?thesis by auto
qed

section \<open>Totals\<close>

text \<open>
  Claim C6. For a collection whose \<open>area_acres\<close> values are numbers or falsy, the
  summary of the project \<open>P\<close> at position \<open>i\<close> has as \<open>totalArea\<close> the sum of
  \<open>area_acres\<close> over exactly the features whose \<open>Project__Name\<close> is strictly equal to
  \<open>P\<close>, a missing or falsy area counting as 0 and a negative one as it is. The sum is
  the one of the program's arithmetic, \<open>number_sum\<close>: from 0, in the order of the
  features, by the host's addition.
\<close>

theorem totalArea_is_sum:
  assumes "\<forall>f\<in>set fs. area_typed f" and "i < length (project_ids fs)"
  shows "name (project_summary H fs ! i) = project_ids fs ! i \<and>
         totalArea (project_summary H fs ! i) =
           number_sum H (map area_value
             (filter (\<lambda>f. js_strict_eq (prop_opt f ''Project__Name'') (project_ids fs ! i)) fs))"
proof -
  let ?P = "project_ids fs ! i"
  have "\<forall>f\<in>set (project_features_of fs ?P). area_typed f"
    using assms(1) by (simp add: project_features_of_def)
  then have "total_area H (project_features_of fs ?P) =
      number_sum H (map area_value (project_features_of fs ?P))"
    by (rule total_area_typed)
  with assms(2) show ?thesis
    by (simp add: project_summary_def summarise_def Let_def project_features_of_def)
qed

theorem totalArea_is_sum_witness:
  "list_all area_typed mixed_areas \<and> 0 < length (project_ids mixed_areas) \<and>
   name (project_summary integer_host mixed_areas ! 0) = JStr ''A'' \<and>
   totalArea (project_summary integer_host mixed_areas ! 0) = JNum 6"
proof -
  have t: "\<forall>f\<in>set mixed_areas. area_typed f"
    by (simp add: mixed_areas_def area_typed_def eval_defs)
  have ids: "project_ids mixed_areas = [JStr ''A'', JStr ''a'', JStr ''A '']"
    by (simp add: mixed_areas_def eval_defs)
  then have l: "0 < length (project_ids mixed_areas)"
    by simp
  have "number_sum integer_host (map area_value
          (filter (\<lambda>f. js_strict_eq (prop_opt f ''Project__Name'') (JStr ''A'')) mixed_areas)) =
        JNum 6"
    by (simp add: mixed_areas_def area_value_def number_sum_def number_or_nan_def eval_defs)
  with totalArea_is_sum[where H = integer_host, OF t l] ids t l show ?thesis
    by (simp add: list_all_iff)
qed

section \<open>Totality\<close>

text \<open>
  Claim C9. No transform fails. \<open>processFeatures\<close>, the only one with an access that
  can throw, always returns a collection, of the length of its input; the summaries are
  as many as the projects; on the empty collection the projects, the colour map, the
  summaries and the enriched collection are empty; and for every feature of a collection
  whose \<open>Project__Name\<close> is present and not \<open>null\<close>, the colour map built from that
  collection has a palette colour under that name.
\<close>

theorem transforms_total:
  "(\<exists>out. processFeatures H fs pc = Inr out \<and> length out = length fs) \<and>
   (\<exists>out. processedFeatures H fs = Inr out \<and> length out = length fs) \<and>
   length (project_summary H fs) = length (project_ids fs) \<and>
   project_ids ([] :: ('g, 'n::{zero,one}) feature list) = [] \<and>
   project_colours H ([] :: ('g, 'n::{zero,one}) feature list) = Map.empty \<and>
   project_summary H ([] :: ('g, 'n::{zero,one}) feature list) = [] \<and>
   processedFeatures H ([] :: ('g, 'n::{zero,one}) feature list) = Inr [] \<and>
   (\<forall>f\<in>set fs. prop_opt f ''Project__Name'' \<noteq> JUndefined \<and>
                 prop_opt f ''Project__Name'' \<noteq> JNull \<longrightarrow>
      (\<exists>c\<in>set colours. obj_get H (project_colours H fs) (prop_opt f ''Project__Name'') = JStr c))"
proof -
  have a: "\<exists>out. processFeatures H fs pc = Inr out \<and> length out = length fs" for pc
    by (simp add: processFeatures_enriched)
  have e: "project_ids ([] :: ('g, 'n::{zero,one}) feature list) = []"
    by (simp add: project_ids_def array_from_set_def)
  have c: "\<exists>c\<in>set colours. obj_get H (project_colours H fs) (prop_opt f ''Project__Name'') = JStr c"
    if "f \<in> set fs" "prop_opt f ''Project__Name'' \<noteq> JNull" for f
  proof -
    from that have "prop_opt f ''Project__Name'' \<in> set (project_ids fs)"
      by (auto simp: set_project_ids)
    then show ?thesis
      unfolding project_colours_def by (rule colour_key_defined)
  qed
  show ?thesis
    using a e c
    by (simp add: length_project_summary project_colours_def project_summary_def
        colour_entries_def from_entries_def processedFeatures_def processFeatures_def)
qed

theorem transforms_total_witness:
  "(\<exists>out. processedFeatures integer_host one_project = Inr out \<and> length out = 1) \<and>
   length (project_summary integer_host one_project) = 1 \<and>
   obj_get integer_host (project_colours integer_host one_project) (JStr ''Creek'') \<in> JStr ` set colours"
proof -
  have m: "one_project ! 0 \<in> set one_project"
    by (simp add: one_project_def)
  have p: "prop_opt (one_project ! 0) ''Project__Name'' = JStr ''Creek''"
    by (simp add: one_project_def paddock_def prop_opt_def)
  have l: "length one_project = 1"
    by (simp add: one_project_def)
  have i: "length (project_ids one_project) = 1"
    by (simp add: one_project_def eval_defs)
  note t = transforms_total[of integer_host one_project "project_colours integer_host one_project"]
  from t have a: "\<exists>out. processedFeatures integer_host one_project = Inr out \<and> length out = length one_project"
    by blast
  from t have s: "length (project_summary integer_host one_project) = length (project_ids one_project)"
    by blast
  from t have "\<forall>f\<in>set one_project.
      prop_opt f ''Project__Name'' \<noteq> JUndefined \<and> prop_opt f ''Project__Name'' \<noteq> JNull \<longrightarrow>
      (\<exists>c\<in>set colours. obj_get integer_host (project_colours integer_host one_project) (prop_opt f ''Project__Name'') = JStr c)"
    by blast
  from this[rule_format, OF m] p
  have c: "obj_get integer_host (project_colours integer_host one_project) (JStr ''Creek'') \<in> JStr ` set colours"
    by auto
  from a s c l i show ?thesis
    by simp
qed

section \<open>The empty project name\<close>

text \<open>
  Claim C10. For a feature whose \<open>Project__Name\<close> is the empty string, the empty string
  is one of the project identifiers, has a palette colour in the colour map and a summary
  of its own; the enriched feature nevertheless has the fallback \<open>#888888\<close>, which is no
  palette colour, as \<open>fillColor\<close>, and its description has no project line.
\<close>

theorem empty_name_inconsistent:
  assumes "i < length fs" and "prop_opt (fs ! i) ''Project__Name'' = JStr []"
  shows "JStr [] \<in> set (project_ids fs) \<and>
         (\<exists>c\<in>set colours. project_colours H fs [] = Some c) \<and>
         (\<exists>s\<in>set (project_summary H fs). name s = JStr [] \<and> 0 < count s) \<and>
         ''#888888'' \<notin> set colours \<and>
         (\<exists>out. processedFeatures H fs = Inr out \<and>
            prop_opt (out ! i) ''fillColor'' = JStr ''#888888'' \<and>
            prop_opt (out ! i) ''description'' =
              JStr (''<strong>'' @ js_to_string H (prop_opt (fs ! i) ''name'') @ ''</strong>'' @
                    ''<p>Owner: '' @ js_to_string H (prop_opt (fs ! i) ''owner'') @
                    ''<br/>Area: '' @ js_to_string H (prop_opt (fs ! i) ''area_acres'') @
                    '' acres'' @ ''</p>''))"
proof -
  have mem: "fs ! i \<in> set fs"
    using assms(1) by simp
  with assms(2) have ids: "JStr [] \<in> set (project_ids fs)"
    by (auto simp: set_project_ids)
  from colour_key_defined[OF ids, of H]
  have col: "\<exists>c\<in>set colours. project_colours H fs [] = Some c"
    by (auto simp: project_colours_def obj_get_def split: option.splits)
  have "fs ! i \<in> set (project_features_of fs (JStr []))"
    using mem assms(2) by (simp add: project_features_of_def js_strict_eq_def)
  then have "0 < length (project_features_of fs (JStr []))"
    by (cases "project_features_of fs (JStr [])") auto
  then have "name (summarise H fs (JStr [])) = JStr [] \<and> 0 < count (summarise H fs (JStr []))"
    by (simp add: summarise_def Let_def)
  with ids have summ: "\<exists>s\<in>set (project_summary H fs). name s = JStr [] \<and> 0 < count s"
    by (auto simp: project_summary_def)
  have grey: "''#888888'' \<notin> set colours"
    by (simp add: colours_def)
  have "processedFeatures H fs = Inr (map (enriched H (project_colours H fs)) fs)"
    by (simp add: processedFeatures_def processFeatures_enriched)
  then have enr: "\<exists>out. processedFeatures H fs = Inr out \<and>
            prop_opt (out ! i) ''fillColor'' = JStr ''#888888'' \<and>
            prop_opt (out ! i) ''description'' =
              JStr (''<strong>'' @ js_to_string H (prop_opt (fs ! i) ''name'') @ ''</strong>'' @
                    ''<p>Owner: '' @ js_to_string H (prop_opt (fs ! i) ''owner'') @
                    ''<br/>Area: '' @ js_to_string H (prop_opt (fs ! i) ''area_acres'') @
                    '' acres'' @ ''</p>'')"
    using assms by (simp add: prop_opt_enriched fill_colour_of_def description_of_def)
  from ids col summ grey enr show ?thesis
    by blast
qed

theorem empty_name_inconsistent_witness:
  "1 < length blank_among \<and>
   prop_opt (blank_among ! 1) ''Project__Name'' = JStr [] \<and>
   JStr [] \<in> set (project_ids blank_among) \<and>
   project_colours integer_host blank_among [] = Some ''#F17105'' \<and>
   (\<exists>out. processedFeatures integer_host blank_among = Inr out \<and>
      prop_opt (out ! 1) ''fillColor'' = JStr ''#888888'' \<and>
      prop_opt (out ! 1) ''description'' =
        JStr ''<strong>South</strong><p>Owner: undefined<br/>Area: undefined acres</p>'')"
proof -
  have l: "1 < length blank_among"
    by (simp add: blank_among_def)
  have p: "prop_opt (blank_among ! 1) ''Project__Name'' = JStr []"
    by (simp add: blank_among_def paddock_def prop_opt_def)
  have c: "project_colours integer_host blank_among [] = Some ''#F17105''"
    by (simp add: blank_among_def eval_defs)
  have v: "prop_opt (blank_among ! 1) ''name'' = JStr ''South''"
          "prop_opt (blank_among ! 1) ''owner'' = JUndefined"
          "prop_opt (blank_among ! 1) ''area_acres'' = JUndefined"
    by (simp_all add: blank_among_def paddock_def prop_opt_def)
  from empty_name_inconsistent[where H = integer_host, OF l p] l p c v show ?thesis
    by simp
qed

end
